theory Spec2Isabelle
  imports Complex_Main "HOL-Library.AList"
begin

section \<open>The experiment driver of \<^verbatim>\<open>traditional_example.py\<close>\<close>

text \<open>
  The script trains a network (or reuses a checkpoint file), extracts features with it and
  compares several classifiers on them. The network, the data loaders, the feature
  extraction and the classifiers are collaborators imported from other modules: they are
  parameters of the model, each returning a value or raising. What is modelled is the
  control logic of the script itself: the epoch loop with its best-accuracy bookkeeping and
  checkpoint writes, the checkpoint gate, the dataset views, the classifier loop, the quality
  gate, the \<^verbatim>\<open>try/except\<close> boundary and the exit status.

  A Python float that is an accuracy is modelled by the real number it denotes: accuracies
  are finite (\<^verbatim>\<open>100.0 * correct / total\<close> raises on a zero total instead of giving NaN),
  and the script only compares them.
\<close>

subsection \<open>Exceptions\<close>

text \<open>
  \<^verbatim>\<open>except Exception\<close> (line 248) catches instances of \<^verbatim>\<open>Exception\<close> and lets the
  other \<^verbatim>\<open>BaseException\<close>s through, of which \<^verbatim>\<open>KeyboardInterrupt\<close> is the one a
  running stage can meet.
\<close>

datatype exn = Exception string | KeyboardInterrupt

subsection \<open>The checkpoint file and the world\<close>

definition CHECKPOINT_PATH :: string where
  "CHECKPOINT_PATH = ''checkpoints/wideresnet/wideresnet_best.pt''"

text \<open>The dictionary \<^verbatim>\<open>state\<close> of lines 111--115; the model's parameters are opaque.\<close>

record 'm checkpoint =
  ck_model_state_dict :: 'm
  ck_acc :: real
  ck_epoch :: nat

text \<open>
  What a path can hold: a completely written checkpoint, or a file whose writing was begun
  and not finished. Directories are not tracked.
\<close>

datatype 'm file_content = Saved "'m checkpoint" | Partial

text \<open>
  The world the script acts on: the files by path, the messages logged at error level
  (\<^verbatim>\<open>logger.info\<close> is not modelled), and a ghost counter of the calls of
  \<^verbatim>\<open>train_model\<close>, which the source does not have and which makes "no training was
  performed" observable.
\<close>

record 'm world =
  fs :: "string \<Rightarrow> 'm file_content option"
  error_log :: "string list"
  train_calls :: nat

definition path_exists :: "'m world \<Rightarrow> string \<Rightarrow> bool" where
  "path_exists w p = (fs w p \<noteq> None)"

text \<open>
  \<^verbatim>\<open>torch.save(state, CHECKPOINT_PATH)\<close> is given the destination path itself: the file
  is opened for writing there (created or truncated) and the serialised record is then
  written into it. The two phases are kept apart so that the state between them can be
  named.
\<close>

definition open_for_write :: "string \<Rightarrow> (string \<Rightarrow> 'm file_content option) \<Rightarrow> (string \<Rightarrow> 'm file_content option)" where
  "open_for_write p files = files(p \<mapsto> Partial)"

definition finish_write :: "'m checkpoint \<Rightarrow> string \<Rightarrow> (string \<Rightarrow> 'm file_content option) \<Rightarrow> (string \<Rightarrow> 'm file_content option)" where
  "finish_write state p files = files(p \<mapsto> Saved state)"

definition torch_save :: "'m checkpoint \<Rightarrow> string \<Rightarrow> 'm world \<Rightarrow> 'm world" where
  "torch_save state p w = w\<lparr>fs := finish_write state p (open_for_write p (fs w))\<rparr>"

text \<open>The world left by a process that dies between the two phases of a save to \<open>p\<close>.\<close>

definition torch_save_interrupted :: "string \<Rightarrow> 'm world \<Rightarrow> 'm world" where
  "torch_save_interrupted p w = w\<lparr>fs := open_for_write p (fs w)\<rparr>"

subsection \<open>The learning-rate schedule\<close>

definition milestones :: "nat list" where
  "milestones = [60, 120, 160]"

definition gamma :: real where
  "gamma = 0.2"

text \<open>
  Modelled from the spec: \<^verbatim>\<open>optim.lr_scheduler.MultiStepLR\<close> is library code that is not
  under src/. The spec's \<^verbatim>\<open>current_multiplier(epoch)\<close> returns gamma to the power of the
  number of milestones that are at most \<open>epoch\<close>, where \<open>epoch\<close> is the number of times the
  schedule has been stepped. The arithmetic is exact here, not floating point.
\<close>

definition current_multiplier :: "nat list \<Rightarrow> real \<Rightarrow> nat \<Rightarrow> real" where
  "current_multiplier ms g epoch = g ^ length (filter (\<lambda>m. m \<le> epoch) ms)"

subsection \<open>\<^verbatim>\<open>train_model\<close>\<close>

text \<open>
  The local state of \<^verbatim>\<open>train_model\<close>: \<^verbatim>\<open>best_acc\<close>, the local variable
  \<^verbatim>\<open>current_lr\<close> (\<open>None\<close> while it is unbound), the scheduler's step counter and the
  world. Two ghost fields record what happened: \<open>writes\<close> lists the epochs whose
  \<^verbatim>\<open>torch.save\<close> returned, and \<open>lr_trace\<close> lists the multiplier in effect during each
  epoch's training pass.
\<close>

record 'm train_state =
  best_acc :: real
  current_lr :: "real option"
  last_epoch :: nat
  the_world :: "'m world"
  writes :: "nat list"
  lr_trace :: "real list"

text \<open>
  One epoch's passes over the two loaders (lines 56--104) are the collaborators' work: for
  epoch \<open>e\<close> they either raise (the division of line 104 by a zero total included) or end
  with the number of batches the training loader yielded, the validation accuracy
  \<^verbatim>\<open>acc\<close> of line 104 and the parameters \<^verbatim>\<open>model.state_dict()\<close>.
\<close>

record 'm pass_result =
  train_batches :: nat
  pass_acc :: real
  pass_model :: 'm

type_synonym 'm epoch_run = "nat \<Rightarrow> exn + 'm pass_result"

text \<open>
  Lines 116--117 are calls into the file system: they return, or raise before the
  destination is opened (\<^verbatim>\<open>mkdir\<close>, or \<^verbatim>\<open>torch.save\<close> failing to open), which leaves
  the files as they were, or raise after it is opened, which leaves a partial file.
\<close>

datatype save_outcome = Written | FailsBeforeOpen exn | FailsAfterOpen exn

text \<open>
  Lines 57--85: \<^verbatim>\<open>current_lr\<close> is assigned inside the loop over the training batches
  (line 78), so it is bound by an epoch only if the loader yields a batch; the optimizer's
  rate is 0.1 times the schedule's multiplier.
\<close>

definition pass_state :: "'m pass_result \<Rightarrow> 'm train_state \<Rightarrow> 'm train_state" where
  "pass_state p s =
     (let s_tr = s\<lparr>lr_trace := lr_trace s @ [current_multiplier milestones gamma (last_epoch s)]\<rparr>
      in if 0 < train_batches p
         then s_tr\<lparr>current_lr := Some (0.1 * current_multiplier milestones gamma (last_epoch s))\<rparr>
         else s_tr)"

text \<open>Lines 107--119 when the save returns: the checkpoint decision, then
  \<^verbatim>\<open>scheduler.step()\<close>.\<close>

definition epoch_end :: "nat \<Rightarrow> real \<Rightarrow> 'm \<Rightarrow> 'm train_state \<Rightarrow> 'm train_state" where
  "epoch_end epoch val_acc msd s =
     (let s1 = (if val_acc > best_acc s
                then s\<lparr>best_acc := val_acc,
                       the_world := torch_save
                          \<lparr>ck_model_state_dict = msd, ck_acc = val_acc, ck_epoch = epoch\<rparr>
                          CHECKPOINT_PATH (the_world s),
                       writes := writes s @ [epoch]\<rparr>
                else s)
      in s1\<lparr>last_epoch := last_epoch s1 + 1\<rparr>)"

text \<open>Reading a local variable that was never assigned (line 105, \<^verbatim>\<open>current_lr\<close>).\<close>

definition UnboundLocalError :: exn where
  "UnboundLocalError = Exception ''UnboundLocalError: current_lr''"

text \<open>
  One iteration of \<^verbatim>\<open>for epoch in range(epochs)\<close>, lines 56--119: the passes; the log
  line 105, which reads \<^verbatim>\<open>current_lr\<close>; the checkpoint decision, where
  \<^verbatim>\<open>best_acc\<close> is assigned before the save is tried; the scheduler step. The result is
  the exception that left the body, if any, and the state.
\<close>

definition epoch_body ::
  "'m epoch_run \<Rightarrow> (nat \<Rightarrow> save_outcome) \<Rightarrow> nat \<Rightarrow> 'm train_state \<Rightarrow> exn option \<times> 'm train_state" where
  "epoch_body run io epoch s =
     (case run epoch of
        Inl x \<Rightarrow> (Some x, s)
      | Inr p \<Rightarrow>
          (let s1 = pass_state p s
           in case current_lr s1 of
                None \<Rightarrow> (Some UnboundLocalError, s1)
              | Some lr \<Rightarrow>
                  if pass_acc p > best_acc s1
                  then (case io epoch of
                          Written \<Rightarrow> (None, epoch_end epoch (pass_acc p) (pass_model p) s1)
                        | FailsBeforeOpen x \<Rightarrow> (Some x, s1\<lparr>best_acc := pass_acc p\<rparr>)
                        | FailsAfterOpen x \<Rightarrow>
                            (Some x,
                             s1\<lparr>best_acc := pass_acc p,
                                the_world := torch_save_interrupted CHECKPOINT_PATH (the_world s1)\<rparr>))
                  else (None, epoch_end epoch (pass_acc p) (pass_model p) s1)))"

text \<open>
  The loop. An exception leaves it; the files written before it stay written.
\<close>

fun train_loop ::
  "'m epoch_run \<Rightarrow> (nat \<Rightarrow> save_outcome) \<Rightarrow> nat list \<Rightarrow> 'm train_state
     \<Rightarrow> exn option \<times> 'm train_state" where
  "train_loop run io [] s = (None, s)"
| "train_loop run io (epoch # rest) s =
     (case epoch_body run io epoch s of
        (Some x, s') \<Rightarrow> (Some x, s')
      | (None, s') \<Rightarrow> train_loop run io rest s')"

text \<open>Lines 37--53 build the criterion, the optimizer and the scheduler and are taken to
  return; \<^verbatim>\<open>best_acc = 0.0\<close>, and \<^verbatim>\<open>current_lr\<close> is not yet bound.\<close>

definition init_state :: "'m world \<Rightarrow> 'm train_state" where
  "init_state w =
     \<lparr>best_acc = 0, current_lr = None, last_epoch = 0,
      the_world = w\<lparr>train_calls := train_calls w + 1\<rparr>,
      writes = [], lr_trace = []\<rparr>"

definition train_model ::
  "'m epoch_run \<Rightarrow> (nat \<Rightarrow> save_outcome) \<Rightarrow> 'm world \<Rightarrow> nat \<Rightarrow> (exn + bool) \<times> 'm world" where
  "train_model run io w epochs =
     (case train_loop run io [0..<epochs] (init_state w) of
        (Some x, s) \<Rightarrow> (Inl x, the_world s)
      | (None, s) \<Rightarrow> (Inr (best_acc s > 50), the_world s))"

text \<open>The loop's state after the iterations for epochs \<open>0, ..., n - 1\<close>, and whether all of
  them ran to their end, so that the loop went on.\<close>

definition state_after ::
  "'m epoch_run \<Rightarrow> (nat \<Rightarrow> save_outcome) \<Rightarrow> 'm world \<Rightarrow> nat \<Rightarrow> 'm train_state" where
  "state_after run io w n = snd (train_loop run io [0..<n] (init_state w))"

definition completes ::
  "'m epoch_run \<Rightarrow> (nat \<Rightarrow> save_outcome) \<Rightarrow> 'm world \<Rightarrow> nat \<Rightarrow> bool" where
  "completes run io w n = (fst (train_loop run io [0..<n] (init_state w)) = None)"

text \<open>The world left when the process dies inside the \<^verbatim>\<open>torch.save\<close> of line 117, called
  in loop state \<open>s\<close>.\<close>

definition crash_in_save :: "'m train_state \<Rightarrow> 'm world" where
  "crash_in_save s = torch_save_interrupted CHECKPOINT_PATH (the_world s)"

subsection \<open>\<^verbatim>\<open>verify_checkpoint\<close>\<close>

text \<open>
  The collaborators of the training stage: building the datasets, loaders and network
  (lines 132--171) may raise; the epochs' passes behave as \<open>epoch_run\<close> says and the
  saves as \<open>saves\<close> says.
\<close>

record 'm train_env =
  build_training :: "exn option"
  epoch_run :: "'m epoch_run"
  saves :: "nat \<Rightarrow> save_outcome"

definition verify_checkpoint :: "'m train_env \<Rightarrow> 'm world \<Rightarrow> (exn + bool) \<times> 'm world" where
  "verify_checkpoint tenv w =
     (if \<not> path_exists w CHECKPOINT_PATH then
        (case build_training tenv of
           Some x \<Rightarrow> (Inl x, w)
         | None \<Rightarrow>
            (case train_model (epoch_run tenv) (saves tenv) w 200 of
               (Inl x, w') \<Rightarrow> (Inl x, w')
             | (Inr ok, w') \<Rightarrow>
                 if \<not> ok
                 then (Inr False,
                       w'\<lparr>error_log := error_log w' @ [''Failed to train model with good accuracy'']\<rparr>)
                 else (Inr True, w')))
      else (Inr True, w))"

subsection \<open>\<^verbatim>\<open>run_cifar100_experiment\<close>\<close>

text \<open>A dataset is the list of its samples; \<^verbatim>\<open>range(n)\<close> is empty for \<open>n \<le> 0\<close>.\<close>

definition py_range :: "int \<Rightarrow> nat list" where
  "py_range n = [0..<nat n]"

text \<open>\<^verbatim>\<open>torch.utils.data.Subset(dataset, indices)\<close>: sample \<open>i\<close> of the view is
  \<^verbatim>\<open>dataset[indices[i]]\<close>.\<close>

definition Subset :: "'s list \<Rightarrow> nat list \<Rightarrow> 's list" where
  "Subset dataset indices = map (\<lambda>i. dataset ! i) indices"

text \<open>Lines 204--211. \<^verbatim>\<open>if subset_size:\<close> is the truth value of an integer.\<close>

definition dataset_views :: "int \<Rightarrow> 's list \<Rightarrow> 's list \<Rightarrow> 's list \<times> 's list" where
  "dataset_views subset_size train_dataset test_dataset =
     (if subset_size \<noteq> 0
      then (Subset train_dataset (py_range (min subset_size (int (length train_dataset)))),
            Subset test_dataset (py_range (min (subset_size div 5) (int (length test_dataset)))))
      else (train_dataset, test_dataset))"

record metrics =
  accuracy :: real
  train_time :: real
  inference_time :: real

text \<open>
  The collaborators of the second stage: constructing \<^verbatim>\<open>TraditionalExperiment\<close>,
  \<^verbatim>\<open>get_dataset\<close> for the two splits, \<^verbatim>\<open>extract_features\<close>, the configured
  classifier names and \<^verbatim>\<open>train_and_evaluate\<close>, which returns
  \<^verbatim>\<open>(train_time, inference_time, accuracy)\<close>.
\<close>

record ('s, 'f, 'l) exp_env =
  make_experiment :: "exn option"
  get_train :: "exn + 's list"
  get_test :: "exn + 's list"
  extract_features :: "'s list \<Rightarrow> exn + ('f \<times> 'l)"
  classifiers :: "string list"
  train_and_evaluate :: "string \<Rightarrow> 'f \<Rightarrow> 'l \<Rightarrow> 'f \<Rightarrow> 'l \<Rightarrow> exn + (real \<times> real \<times> real)"

text \<open>
  Lines 218--228. \<^verbatim>\<open>results\<close> is a dict: assigning to a key that is present replaces its
  value in place, a new key goes to the end.
\<close>

fun evaluate_classifiers ::
  "('s, 'f, 'l) exp_env \<Rightarrow> 'f \<Rightarrow> 'l \<Rightarrow> 'f \<Rightarrow> 'l \<Rightarrow> string list \<Rightarrow> (string \<times> metrics) list
     \<Rightarrow> exn + (string \<times> metrics) list" where
  "evaluate_classifiers xenv trf trl tef tel [] results = Inr results"
| "evaluate_classifiers xenv trf trl tef tel (clf_name # rest) results =
     (case train_and_evaluate xenv clf_name trf trl tef tel of
        Inl x \<Rightarrow> Inl x
      | Inr (t_train, t_inf, acc_clf) \<Rightarrow>
          evaluate_classifiers xenv trf trl tef tel rest
            (AList.update clf_name
               \<lparr>accuracy = acc_clf, train_time = t_train, inference_time = t_inf\<rparr> results))"

text \<open>Lines 190--228: everything in the \<^verbatim>\<open>try\<close> block before the quality gate.\<close>

definition collect_results :: "('s, 'f, 'l) exp_env \<Rightarrow> int \<Rightarrow> exn + (string \<times> metrics) list" where
  "collect_results xenv subset_size =
     (case make_experiment xenv of
        Some x \<Rightarrow> Inl x
      | None \<Rightarrow>
     (case get_train xenv of
        Inl x \<Rightarrow> Inl x
      | Inr train_dataset \<Rightarrow>
     (case get_test xenv of
        Inl x \<Rightarrow> Inl x
      | Inr test_dataset \<Rightarrow>
     (case dataset_views subset_size train_dataset test_dataset of
        (train_view, test_view) \<Rightarrow>
     (case extract_features xenv train_view of
        Inl x \<Rightarrow> Inl x
      | Inr (train_features, train_labels) \<Rightarrow>
     (case extract_features xenv test_view of
        Inl x \<Rightarrow> Inl x
      | Inr (test_features, test_labels) \<Rightarrow>
          evaluate_classifiers xenv train_features train_labels test_features test_labels
            (classifiers xenv) []))))))"

text \<open>Line 240: \<^verbatim>\<open>all(metrics["accuracy"] < 10.0 for metrics in results.values())\<close>.\<close>

definition all_poor :: "(string \<times> metrics) list \<Rightarrow> bool" where
  "all_poor results = list_all (\<lambda>m. accuracy m < 10) (map snd results)"

definition stopping_here :: string where
  "stopping_here = ''CIFAR-100 experiment failed or returned poor results, stopping here.''"

text \<open>
  Lines 181--254. The checkpoint gate is called before the \<^verbatim>\<open>try\<close>; inside it, an
  \<^verbatim>\<open>Exception\<close> is logged and becomes \<^verbatim>\<open>False\<close>, anything else propagates.
\<close>

definition run_cifar100_experiment ::
  "'m train_env \<Rightarrow> ('s, 'f, 'l) exp_env \<Rightarrow> 'm world \<Rightarrow> int \<Rightarrow> (exn + bool) \<times> 'm world" where
  "run_cifar100_experiment tenv xenv w subset_size =
     (case verify_checkpoint tenv w of
        (Inl x, w1) \<Rightarrow> (Inl x, w1)
      | (Inr ok, w1) \<Rightarrow>
          if \<not> ok then (Inr False, w1)
          else
            (case collect_results xenv subset_size of
               Inr results \<Rightarrow>
                 if all_poor results
                 then (Inr False, w1\<lparr>error_log := error_log w1 @ [stopping_here]\<rparr>)
                 else (Inr True, w1)
             | Inl (Exception msg) \<Rightarrow>
                 (Inr False,
                  w1\<lparr>error_log := error_log w1 @
                      [''Error in CIFAR-100 experiment: '' @ msg, ''Traceback:'', stopping_here]\<rparr>)
             | Inl KeyboardInterrupt \<Rightarrow> (Inl KeyboardInterrupt, w1)))"

subsection \<open>\<^verbatim>\<open>main\<close> and the exit status\<close>

text \<open>
  How the process ends: \<^verbatim>\<open>main\<close> returns, \<^verbatim>\<open>sys.exit(n)\<close> is called, or an
  exception reaches the top level. The interpreter's status is 0 for a normal end, \<open>n\<close> for
  \<^verbatim>\<open>sys.exit(n)\<close>, 1 for an uncaught exception and 130 for an uncaught
  \<^verbatim>\<open>KeyboardInterrupt\<close>.
\<close>

datatype proc_end = Returned | SysExit nat | Uncaught exn

fun exit_status :: "proc_end \<Rightarrow> nat" where
  "exit_status Returned = 0"
| "exit_status (SysExit n) = n"
| "exit_status (Uncaught (Exception msg)) = 1"
| "exit_status (Uncaught KeyboardInterrupt) = 130"

definition main :: "'m train_env \<Rightarrow> ('s, 'f, 'l) exp_env \<Rightarrow> 'm world \<Rightarrow> proc_end \<times> 'm world" where
  "main tenv xenv w =
     (case run_cifar100_experiment tenv xenv w 5000 of
        (Inl x, w1) \<Rightarrow> (Uncaught x, w1)
      | (Inr ok, w1) \<Rightarrow> if \<not> ok then (SysExit 1, w1) else (Returned, w1))"

subsection \<open>Concrete inputs for the examples\<close>

text \<open>A world without files, a three-epoch run with validation accuracies 40, 55, 52 (its
  model state is the epoch index), runs whose accuracy is the same in every epoch, with a
  training loader that yields a batch or none, and saves that all return or all fail.\<close>

definition no_files :: "'m world" where
  "no_files = \<lparr>fs = (\<lambda>p. None), error_log = [], train_calls = 0\<rparr>"

definition three_epochs :: "nat epoch_run" where
  "three_epochs epoch =
     Inr \<lparr>train_batches = 1,
          pass_acc = (if epoch = 0 then 40 else if epoch = 1 then 55 else 52),
          pass_model = epoch\<rparr>"

definition flat_run :: "real \<Rightarrow> nat epoch_run" where
  "flat_run c epoch = Inr \<lparr>train_batches = 1, pass_acc = c, pass_model = epoch\<rparr>"

definition empty_loader_run :: "real \<Rightarrow> nat epoch_run" where
  "empty_loader_run c epoch = Inr \<lparr>train_batches = 0, pass_acc = c, pass_model = epoch\<rparr>"

definition all_written :: "nat \<Rightarrow> save_outcome" where
  "all_written epoch = Written"


definition stale_world :: "nat world" where
  "stale_world = no_files\<lparr>fs := (fs no_files)(CHECKPOINT_PATH \<mapsto>
      Saved \<lparr>ck_model_state_dict = 0, ck_acc = 12, ck_epoch = 3\<rparr>)\<rparr>"

definition zero_env :: "nat train_env" where
  "zero_env = \<lparr>build_training = None, epoch_run = flat_run 0, saves = all_written\<rparr>"

definition gate_env :: "real \<Rightarrow> real \<Rightarrow> (nat, unit, unit) exp_env" where
  "gate_env a b =
     \<lparr>make_experiment = None, get_train = Inr [1, 2, 3], get_test = Inr [4, 5],
      extract_features = (\<lambda>ds. Inr ((), ())),
      classifiers = [''clf_a'', ''clf_b''],
      train_and_evaluate = (\<lambda>clf_name trf trl tef tel.
         Inr (1, 1, if clf_name = ''clf_a'' then a else b))\<rparr>"

definition no_classifiers_env :: "(nat, unit, unit) exp_env" where
  "no_classifiers_env = (gate_env 0 0)\<lparr>classifiers := []\<rparr>"

definition faulty_env :: "(nat, unit, unit) exp_env" where
  "faulty_env = (gate_env 90 90)\<lparr>extract_features :=
      (\<lambda>ds. if ds = [4, 5] then Inl (Exception ''malformed sample'') else Inr ((), ()))\<rparr>"

definition failing_clf_env :: "(nat, unit, unit) exp_env" where
  "failing_clf_env = (gate_env 90 90)\<lparr>train_and_evaluate :=
      (\<lambda>clf_name trf trl tef tel.
         if clf_name = ''clf_b'' then Inl (Exception ''fit failed'') else Inr (1, 1, 90))\<rparr>"

section \<open>Properties\<close>

subsection \<open>The epoch loop, step by step\<close>

lemma train_loop_append:
  "train_loop run io (xs @ ys) s =
     (case train_loop run io xs s of
        (Some x, s') \<Rightarrow> (Some x, s')
      | (None, s') \<Rightarrow> train_loop run io ys s')"
  by (induction xs arbitrary: s) (auto split: prod.splits option.splits)

lemma train_loop_single:
  "train_loop run io [n] s = epoch_body run io n s"
  by (auto split: prod.splits option.splits)

lemma state_after_0: "state_after run io w 0 = init_state w"
  by (simp add: state_after_def)

lemma completes_0: "completes run io w 0"
  by (simp add: completes_def)

lemma loop_result:
  "completes run io w n \<Longrightarrow>
   train_loop run io [0..<n] (init_state w) = (None, state_after run io w n)"
  by (simp add: completes_def state_after_def prod_eq_iff)

lemma train_loop_Suc:
  "train_loop run io [0..<Suc n] s0 =
     (case train_loop run io [0..<n] s0 of
        (Some x, s') \<Rightarrow> (Some x, s')
      | (None, s') \<Rightarrow> epoch_body run io n s')"
proof -
  have "[0..<Suc n] = [0..<n] @ [n]"
    by simp
  then show ?thesis
    by (simp only: train_loop_append train_loop_single)
qed

lemma completes_Suc:
  "completes run io w (Suc n) \<longleftrightarrow>
   completes run io w n \<and> fst (epoch_body run io n (state_after run io w n)) = None"
proof (cases "train_loop run io [0..<n] (init_state w)")
  case (Pair r s)
  then show ?thesis
    by (cases r) (simp_all add: completes_def state_after_def train_loop_Suc del: upt_Suc)
qed

lemma completes_prefix:
  "completes run io w n \<Longrightarrow> k \<le> n \<Longrightarrow> completes run io w k"
proof (induction n)
  case 0
  then show ?case by simp
next
  case (Suc n)
  then show ?case
    by (cases "k = Suc n") (auto simp: completes_Suc)
qed

lemma state_after_step:
  "completes run io w (Suc n) \<Longrightarrow>
   state_after run io w (Suc n) = snd (epoch_body run io n (state_after run io w n))"
proof (cases "train_loop run io [0..<n] (init_state w)")
  case (Pair r s)
  assume "completes run io w (Suc n)"
  then show ?thesis
    using Pair
    by (cases r) (simp_all add: completes_def state_after_def train_loop_Suc del: upt_Suc)
qed

lemma epoch_body_None:
  assumes "fst (epoch_body run io e s) = None"
  shows "\<exists>p. run e = Inr p
          \<and> current_lr (pass_state p s) \<noteq> None
          \<and> (best_acc s < pass_acc p \<longrightarrow> io e = Written)
          \<and> snd (epoch_body run io e s) = epoch_end e (pass_acc p) (pass_model p) (pass_state p s)"
proof (cases "run e")
  case (Inl x)
  then show ?thesis
    using assms by (simp add: epoch_body_def)
next
  case (Inr p)
  have b: "best_acc (pass_state p s) = best_acc s"
    by (simp add: pass_state_def Let_def)
  show ?thesis
    using assms Inr b
    by (auto simp: epoch_body_def Let_def split: option.splits if_splits save_outcome.splits)
qed

lemma completes_ran:
  assumes "completes run io w n" and "i < n"
  shows "\<exists>p. run i = Inr p"
proof -
  have "completes run io w (Suc i)"
    using assms completes_prefix [of run io w n "Suc i"] by simp
  then have "fst (epoch_body run io i (state_after run io w i)) = None"
    by (simp add: completes_Suc)
  then show ?thesis
    using epoch_body_None by blast
qed

lemma state_after_Suc:
  assumes "completes run io w (Suc n)" and "run n = Inr p"
  shows "state_after run io w (Suc n) =
         epoch_end n (pass_acc p) (pass_model p) (pass_state p (state_after run io w n))"
proof -
  have "fst (epoch_body run io n (state_after run io w n)) = None"
    using assms(1) by (simp add: completes_Suc)
  then show ?thesis
    using epoch_body_None [of run io n "state_after run io w n"] assms
    by (auto simp: state_after_step)
qed

lemma save_returned:
  assumes "completes run io w (Suc n)" and "run n = Inr p"
    and "best_acc (state_after run io w n) < pass_acc p"
  shows "io n = Written"
proof -
  have "fst (epoch_body run io n (state_after run io w n)) = None"
    using assms(1) by (simp add: completes_Suc)
  then show ?thesis
    using epoch_body_None [of run io n "state_after run io w n"] assms(2,3) by auto
qed

lemma best_acc_Suc:
  assumes "completes run io w (Suc n)" and "run n = Inr p"
  shows "best_acc (state_after run io w (Suc n)) = max (best_acc (state_after run io w n)) (pass_acc p)"
  by (simp add: state_after_Suc [OF assms] epoch_end_def pass_state_def Let_def)

lemma last_epoch_Suc:
  assumes "completes run io w (Suc n)" and "run n = Inr p"
  shows "last_epoch (state_after run io w (Suc n)) = Suc (last_epoch (state_after run io w n))"
  by (simp add: state_after_Suc [OF assms] epoch_end_def pass_state_def Let_def)

lemma lr_trace_Suc:
  assumes "completes run io w (Suc n)" and "run n = Inr p"
  shows "lr_trace (state_after run io w (Suc n)) =
     lr_trace (state_after run io w n) @
       [current_multiplier milestones gamma (last_epoch (state_after run io w n))]"
  by (simp add: state_after_Suc [OF assms] epoch_end_def pass_state_def Let_def)

lemma writes_Suc:
  assumes "completes run io w (Suc n)" and "run n = Inr p"
  shows "writes (state_after run io w (Suc n)) =
     (if pass_acc p > best_acc (state_after run io w n)
      then writes (state_after run io w n) @ [n] else writes (state_after run io w n))"
  by (simp add: state_after_Suc [OF assms] epoch_end_def pass_state_def Let_def)

lemma the_world_Suc:
  assumes "completes run io w (Suc n)" and "run n = Inr p"
  shows "the_world (state_after run io w (Suc n)) =
     (if pass_acc p > best_acc (state_after run io w n)
      then torch_save \<lparr>ck_model_state_dict = pass_model p, ck_acc = pass_acc p, ck_epoch = n\<rparr>
             CHECKPOINT_PATH (the_world (state_after run io w n))
      else the_world (state_after run io w n))"
  by (simp add: state_after_Suc [OF assms] epoch_end_def pass_state_def Let_def)

lemma last_epoch_after:
  "completes run io w n \<Longrightarrow> last_epoch (state_after run io w n) = n"
proof (induction n)
  case 0
  show ?case by (simp add: state_after_0 init_state_def)
next
  case (Suc n)
  obtain p where p: "run n = Inr p"
    using completes_ran [OF Suc.prems, of n] by auto
  have "completes run io w n"
    using Suc.prems by (simp add: completes_Suc)
  then show ?case
    using Suc.IH last_epoch_Suc [OF Suc.prems p] by simp
qed

lemma lr_trace_after:
  "completes run io w n \<Longrightarrow>
   lr_trace (state_after run io w n) = map (current_multiplier milestones gamma) [0..<n]"
proof (induction n)
  case 0
  show ?case by (simp add: state_after_0 init_state_def)
next
  case (Suc n)
  obtain p where p: "run n = Inr p"
    using completes_ran [OF Suc.prems, of n] by auto
  have c: "completes run io w n"
    using Suc.prems by (simp add: completes_Suc)
  show ?case
    using Suc.IH [OF c] lr_trace_Suc [OF Suc.prems p] last_epoch_after [OF c] by simp
qed

lemma best_acc_after:
  "completes run io w n \<Longrightarrow> \<forall>i<n. run i = Inr (p i) \<Longrightarrow>
   best_acc (state_after run io w n) = Max (insert 0 ((\<lambda>i. pass_acc (p i)) ` {..<n}))"
proof (induction n)
  case 0
  show ?case by (simp add: state_after_0 init_state_def)
next
  case (Suc n)
  have c: "completes run io w n"
    using Suc.prems(1) by (simp add: completes_Suc)
  have r: "run n = Inr (p n)" and r': "\<forall>i<n. run i = Inr (p i)"
    using Suc.prems(2) by simp_all
  let ?a = "\<lambda>i. pass_acc (p i)"
  have "best_acc (state_after run io w (Suc n)) = max (Max (insert 0 (?a ` {..<n}))) (?a n)"
    using Suc.IH [OF c r'] best_acc_Suc [OF Suc.prems(1) r] by simp
  also have "\<dots> = Max (insert (?a n) (insert 0 (?a ` {..<n})))"
    by (simp add: max.commute)
  also have "insert (?a n) (insert 0 (?a ` {..<n})) = insert 0 (?a ` {..<Suc n})"
    by (auto simp: lessThan_Suc)
  finally show ?case .
qed

lemma best_acc_mono:
  assumes "completes run io w (Suc n)" and "run n = Inr p"
  shows "best_acc (state_after run io w n) \<le> best_acc (state_after run io w (Suc n))"
  by (simp add: best_acc_Suc [OF assms])

lemma writes_after:
  "completes run io w n \<Longrightarrow> \<forall>i<n. run i = Inr (p i) \<Longrightarrow>
   writes (state_after run io w n) =
     filter (\<lambda>e. pass_acc (p e) > best_acc (state_after run io w e)) [0..<n]"
proof (induction n)
  case 0
  show ?case by (simp add: state_after_0 init_state_def)
next
  case (Suc n)
  have c: "completes run io w n"
    using Suc.prems(1) by (simp add: completes_Suc)
  have r: "run n = Inr (p n)" and r': "\<forall>i<n. run i = Inr (p i)"
    using Suc.prems(2) by simp_all
  show ?case
    using Suc.IH [OF c r'] writes_Suc [OF Suc.prems(1) r] by simp
qed

lemma world_other_fields_after:
  "completes run io w n \<Longrightarrow>
   error_log (the_world (state_after run io w n)) = error_log w \<and>
   train_calls (the_world (state_after run io w n)) = train_calls w + 1 \<and>
   (\<forall>q. q \<noteq> CHECKPOINT_PATH \<longrightarrow> fs (the_world (state_after run io w n)) q = fs w q)"
proof (induction n)
  case 0
  show ?case by (simp add: state_after_0 init_state_def)
next
  case (Suc n)
  obtain p where p: "run n = Inr p"
    using completes_ran [OF Suc.prems, of n] by auto
  have c: "completes run io w n"
    using Suc.prems by (simp add: completes_Suc)
  show ?case
    using Suc.IH [OF c] the_world_Suc [OF Suc.prems p]
    by (simp add: torch_save_def finish_write_def open_for_write_def)
qed

lemma world_no_writes:
  "completes run io w n \<Longrightarrow> writes (state_after run io w n) = [] \<Longrightarrow>
   the_world (state_after run io w n) = w\<lparr>train_calls := train_calls w + 1\<rparr>"
proof (induction n)
  case 0
  show ?case by (simp add: state_after_0 init_state_def)
next
  case (Suc n)
  obtain p where p: "run n = Inr p"
    using completes_ran [OF Suc.prems(1), of n] by auto
  have c: "completes run io w n"
    using Suc.prems(1) by (simp add: completes_Suc)
  show ?case
    using Suc.IH [OF c] Suc.prems(2) the_world_Suc [OF Suc.prems(1) p] writes_Suc [OF Suc.prems(1) p]
    by (simp split: if_splits)
qed

lemma stored_record_after:
  "completes run io w n \<Longrightarrow> \<forall>i<n. run i = Inr (p i) \<Longrightarrow>
   writes (state_after run io w n) \<noteq> [] \<Longrightarrow>
   fs (the_world (state_after run io w n)) CHECKPOINT_PATH =
     Some (Saved \<lparr>ck_model_state_dict = pass_model (p (last (writes (state_after run io w n)))),
                  ck_acc = best_acc (state_after run io w n),
                  ck_epoch = last (writes (state_after run io w n))\<rparr>)"
proof (induction n)
  case 0
  then show ?case by (simp add: state_after_0 init_state_def)
next
  case (Suc n)
  have c: "completes run io w n"
    using Suc.prems(1) by (simp add: completes_Suc)
  have r: "run n = Inr (p n)" and r': "\<forall>i<n. run i = Inr (p i)"
    using Suc.prems(2) by simp_all
  show ?case
  proof (cases "pass_acc (p n) > best_acc (state_after run io w n)")
    case True
    then show ?thesis
      using the_world_Suc [OF Suc.prems(1) r] writes_Suc [OF Suc.prems(1) r]
        best_acc_Suc [OF Suc.prems(1) r]
      by (simp add: torch_save_def finish_write_def open_for_write_def)
  next
    case False
    then show ?thesis
      using Suc.IH [OF c r'] Suc.prems(3) the_world_Suc [OF Suc.prems(1) r]
        writes_Suc [OF Suc.prems(1) r] best_acc_Suc [OF Suc.prems(1) r]
      by (simp add: max_def)
  qed
qed


lemma train_loop_via_state_after:
  assumes "completes run io w n" and "n \<le> epochs"
  shows "train_loop run io [0..<epochs] (init_state w) =
         train_loop run io [n..<epochs] (state_after run io w n)"
proof -
  have "[0..<epochs] = [0..<n] @ [n..<epochs]"
    using assms(2) upt_add_eq_append [of 0 n "epochs - n"] by simp
  then show ?thesis
    by (simp add: train_loop_append loop_result [OF assms(1)])
qed

lemma train_model_completed:
  assumes "completes run io w epochs"
  shows "train_model run io w epochs =
     (Inr (50 < best_acc (state_after run io w epochs)), the_world (state_after run io w epochs))"
  by (simp add: train_model_def loop_result [OF assms])

lemma train_model_returns_iff:
  "(\<exists>b. fst (train_model run io w epochs) = Inr b) \<longleftrightarrow> completes run io w epochs"
  by (cases "train_loop run io [0..<epochs] (init_state w)")
     (auto simp: train_model_def completes_def split: option.splits)

lemma pass_state_lr:
  "0 < train_batches p \<or> current_lr s \<noteq> None \<Longrightarrow> current_lr (pass_state p s) \<noteq> None"
  by (cases "0 < train_batches p") (simp_all add: pass_state_def Let_def)

lemma completes_if:
  "\<forall>i<n. run i = Inr (p i) \<Longrightarrow> 0 < train_batches (p 0) \<Longrightarrow>
   \<forall>i<n. io i = Written \<or> pass_acc (p i) \<le> 0 \<Longrightarrow>
   completes run io w n
   \<and> (0 < n \<longrightarrow> current_lr (state_after run io w n) \<noteq> None)
   \<and> 0 \<le> best_acc (state_after run io w n)"
proof (induction n)
  case 0
  show ?case by (simp add: completes_0 state_after_0 init_state_def)
next
  case (Suc n)
  let ?s = "state_after run io w n"
  have ih: "completes run io w n" "0 < n \<longrightarrow> current_lr ?s \<noteq> None" "0 \<le> best_acc ?s"
    using Suc.IH Suc.prems by simp_all
  have r: "run n = Inr (p n)"
    using Suc.prems(1) by simp
  have lr: "current_lr (pass_state (p n) ?s) \<noteq> None"
  proof (cases n)
    case 0
    then show ?thesis
      using Suc.prems(2) by (intro pass_state_lr) simp
  next
    case (Suc k)
    then show ?thesis
      using ih(2) by (intro pass_state_lr) simp
  qed
  have b: "best_acc (pass_state (p n) ?s) = best_acc ?s"
    by (simp add: pass_state_def Let_def)
  have sv: "best_acc ?s < pass_acc (p n) \<longrightarrow> io n = Written"
    using Suc.prems(3) ih(3) by auto
  have body: "fst (epoch_body run io n ?s) = None"
    using lr b sv by (auto simp: epoch_body_def r Let_def)
  have c: "completes run io w (Suc n)"
    using ih(1) body by (simp add: completes_Suc)
  have st: "state_after run io w (Suc n) =
            epoch_end n (pass_acc (p n)) (pass_model (p n)) (pass_state (p n) ?s)"
    by (rule state_after_Suc [OF c r])
  have l: "current_lr (state_after run io w (Suc n)) \<noteq> None"
    using lr by (simp add: st epoch_end_def Let_def)
  have g: "0 \<le> best_acc (state_after run io w (Suc n))"
    using ih(3) by (simp add: best_acc_Suc [OF c r])
  from c l g show ?case by simp
qed

text \<open>With a training loader that yields no batch, the first epoch raises at line 105,
  whatever its validation accuracy, and nothing is written.\<close>

lemma empty_loader_raises:
  "train_model (empty_loader_run c) io (w :: nat world) (Suc n) =
     (Inl UnboundLocalError, w\<lparr>train_calls := train_calls w + 1\<rparr>)"
proof -
  have "[0..<Suc n] = 0 # [Suc 0..<Suc n]"
    by (simp add: upt_rec)
  then show ?thesis
    by (simp add: train_model_def epoch_body_def empty_loader_run_def pass_state_def
        init_state_def Let_def del: upt_Suc)
qed

subsection \<open>The training loop\<close>

text \<open>
  C1. Take a run that completes its \<open>epochs\<close> epochs, whose passes end with the validation
  accuracies \<open>pass_acc (p 0), pass_acc (p 1), ...\<close> (percentages, so none is negative). The
  state after epoch \<open>e\<close> is an intermediate state of the loop; there \<^verbatim>\<open>best_acc\<close> is the
  maximum of the accuracies of epochs \<open>0, ..., e\<close>, and if a checkpoint was written so far,
  the file at the configured path is a record with that accuracy. The best accuracy does not
  decrease from one epoch to the next. Epoch \<open>e\<close> writes exactly when its accuracy is strictly
  above the best accuracy before it, and then the path holds the record of epoch \<open>e\<close>;
  otherwise (a tie included) the world is left as it was.
\<close>

theorem best_acc_is_running_max:
  assumes "completes run io w epochs"
    and "\<forall>i<epochs. run i = Inr (p i)"
    and "\<forall>i<epochs. 0 \<le> pass_acc (p i)"
    and "e < epochs"
  shows "train_loop run io [0..<epochs] (init_state w) =
           train_loop run io [Suc e..<epochs] (state_after run io w (Suc e))
       \<and> best_acc (state_after run io w (Suc e)) = Max ((\<lambda>i. pass_acc (p i)) ` {..e})
       \<and> (writes (state_after run io w (Suc e)) \<noteq> [] \<longrightarrow>
            (\<exists>r. fs (the_world (state_after run io w (Suc e))) CHECKPOINT_PATH = Some (Saved r)
                \<and> ck_acc r = Max ((\<lambda>i. pass_acc (p i)) ` {..e})))
       \<and> best_acc (state_after run io w e) \<le> best_acc (state_after run io w (Suc e))
       \<and> (e \<in> set (writes (state_after run io w (Suc e))) \<longleftrightarrow>
            pass_acc (p e) > best_acc (state_after run io w e))
       \<and> (e \<in> set (writes (state_after run io w epochs)) \<longleftrightarrow>
            pass_acc (p e) > best_acc (state_after run io w e))
       \<and> (pass_acc (p e) > best_acc (state_after run io w e) \<longrightarrow>
            fs (the_world (state_after run io w (Suc e))) CHECKPOINT_PATH =
              Some (Saved \<lparr>ck_model_state_dict = pass_model (p e), ck_acc = pass_acc (p e),
                           ck_epoch = e\<rparr>))
       \<and> (\<not> pass_acc (p e) > best_acc (state_after run io w e) \<longrightarrow>
            the_world (state_after run io w (Suc e)) = the_world (state_after run io w e))"
proof -
  let ?a = "\<lambda>i. pass_acc (p i)"
  have cS: "completes run io w (Suc e)"
    using assms(1,4) completes_prefix [of run io w epochs "Suc e"] by simp
  have pre: "\<forall>i<Suc e. run i = Inr (p i)" and r: "run e = Inr (p e)"
    using assms(2,4) by simp_all
  have c0: "train_loop run io [0..<epochs] (init_state w) =
           train_loop run io [Suc e..<epochs] (state_after run io w (Suc e))"
    using train_loop_via_state_after [OF cS, of epochs] assms(4) by simp
  have "0 \<le> ?a 0" using assms(3,4) by simp
  moreover have "?a 0 \<le> Max (?a ` {..e})" by simp
  ultimately have "0 \<le> Max (?a ` {..e})"
    by (rule order_trans)
  then have "Max (insert 0 (?a ` {..e})) = Max (?a ` {..e})"
    by (simp add: max_absorb2)
  then have c1: "best_acc (state_after run io w (Suc e)) = Max (?a ` {..e})"
    using best_acc_after [OF cS pre] by (simp add: lessThan_Suc_atMost)
  have c2: "writes (state_after run io w (Suc e)) \<noteq> [] \<longrightarrow>
            (\<exists>r. fs (the_world (state_after run io w (Suc e))) CHECKPOINT_PATH = Some (Saved r)
                \<and> ck_acc r = Max (?a ` {..e}))"
    using stored_record_after [OF cS pre] c1 by simp
  have c3: "best_acc (state_after run io w e) \<le> best_acc (state_after run io w (Suc e))"
    by (rule best_acc_mono [OF cS r])
  have c4: "e \<in> set (writes (state_after run io w (Suc e))) \<longleftrightarrow>
            ?a e > best_acc (state_after run io w e)"
    by (simp add: writes_after [OF cS pre])
  have c5: "e \<in> set (writes (state_after run io w epochs)) \<longleftrightarrow>
            ?a e > best_acc (state_after run io w e)"
    using assms(4) by (simp add: writes_after [OF assms(1,2)])
  have c6: "?a e > best_acc (state_after run io w e) \<longrightarrow>
            fs (the_world (state_after run io w (Suc e))) CHECKPOINT_PATH =
              Some (Saved \<lparr>ck_model_state_dict = pass_model (p e), ck_acc = ?a e, ck_epoch = e\<rparr>)"
    by (simp add: the_world_Suc [OF cS r] torch_save_def finish_write_def open_for_write_def)
  have c7: "\<not> ?a e > best_acc (state_after run io w e) \<longrightarrow>
            the_world (state_after run io w (Suc e)) = the_world (state_after run io w e)"
    by (simp add: the_world_Suc [OF cS r])
  from c0 c1 c2 c3 c4 c5 c6 c7 show ?thesis by blast
qed

lemma three_epochs_result:
  "train_model three_epochs all_written no_files 3 =
     (Inr True,
      \<lparr>fs = (\<lambda>p. None)(CHECKPOINT_PATH \<mapsto>
               Saved \<lparr>ck_model_state_dict = 1, ck_acc = 55, ck_epoch = 1\<rparr>),
       error_log = [], train_calls = 1\<rparr>)"
  by (simp add: train_model_def upt_rec three_epochs_def all_written_def init_state_def
      no_files_def epoch_body_def pass_state_def epoch_end_def Let_def torch_save_def
      finish_write_def open_for_write_def)

lemma three_epochs_completes: "completes three_epochs all_written (w :: nat world) n"
proof -
  let ?p = "\<lambda>i::nat. \<lparr>train_batches = 1,
                       pass_acc = (if i = 0 then 40 else if i = 1 then 55 else (52::real)),
                       pass_model = i\<rparr>"
  have "\<forall>i<n. three_epochs i = Inr (?p i)"
    by (simp add: three_epochs_def)
  moreover have "0 < train_batches (?p 0)"
    by simp
  moreover have "\<forall>i<n. all_written i = Written \<or> pass_acc (?p i) \<le> 0"
    by (simp add: all_written_def)
  ultimately show ?thesis
    using completes_if [of n three_epochs ?p all_written w] by blast
qed

lemma three_epochs_writes: "writes (state_after three_epochs all_written no_files 3) = [0, 1]"
  by (simp add: state_after_def upt_rec three_epochs_def all_written_def init_state_def
      no_files_def epoch_body_def pass_state_def epoch_end_def Let_def)

theorem best_acc_is_running_max_witness:
  "best_acc (state_after three_epochs all_written no_files 3) = 55
   \<and> best_acc (state_after three_epochs all_written no_files 2)
       \<le> best_acc (state_after three_epochs all_written no_files 3)
   \<and> 2 \<notin> set (writes (state_after three_epochs all_written no_files 3))
   \<and> (\<exists>r. fs (the_world (state_after three_epochs all_written no_files 3)) CHECKPOINT_PATH =
            Some (Saved r) \<and> ck_acc r = 55)"
proof -
  let ?p = "\<lambda>i::nat. \<lparr>train_batches = 1,
                       pass_acc = (if i = 0 then 40 else if i = 1 then 55 else (52::real)),
                       pass_model = i\<rparr>"
  have h1: "\<forall>i<3. three_epochs i = Inr (?p i)"
    by (simp add: three_epochs_def)
  have h2: "\<forall>i<3. 0 \<le> pass_acc (?p i)"
    by simp
  have h3: "(2::nat) < 3"
    by simp
  have mx: "Max ((\<lambda>i. pass_acc (?p i)) ` {..2}) = 55"
    by (simp add: eval_nat_numeral atMost_Suc)
  have s3: "Suc 2 = 3"
    by simp
  note T = best_acc_is_running_max [OF three_epochs_completes h1 h2 h3, unfolded s3 mx]
  have t1: "best_acc (state_after three_epochs all_written no_files 3) = 55"
    using T by blast
  have t2: "best_acc (state_after three_epochs all_written no_files 2)
       \<le> best_acc (state_after three_epochs all_written no_files 3)"
    using T by blast
  have t3: "2 \<notin> set (writes (state_after three_epochs all_written no_files 3))"
    by (simp add: three_epochs_writes)
  have t4: "\<exists>r. fs (the_world (state_after three_epochs all_written no_files 3)) CHECKPOINT_PATH =
            Some (Saved r) \<and> ck_acc r = 55"
  proof -
    have "writes (state_after three_epochs all_written no_files 3) \<noteq> []"
      by (simp add: three_epochs_writes)
    with T show ?thesis by blast
  qed
  from t1 t2 t3 t4 show ?thesis by blast
qed

lemma best_gt_50_iff:
  assumes "completes run io w n" and "\<forall>i<n. run i = Inr (p i)"
  shows "50 < best_acc (state_after run io w n) \<longleftrightarrow> (\<exists>i<n. 50 < pass_acc (p i))"
proof -
  let ?A = "insert 0 ((\<lambda>i. pass_acc (p i)) ` {..<n})"
  have "50 < Max ?A \<longleftrightarrow> (\<exists>x\<in>?A. 50 < x)"
    by (rule Max_gr_iff) auto
  then show ?thesis
    by (auto simp: best_acc_after [OF assms])
qed

text \<open>
  C4. A training run that completes returns success exactly when some epoch's validation
  accuracy is strictly above 50. With the accuracies 40, 55, 52 it returns success, and the
  file left at the checkpoint path is the record of epoch 1 with accuracy 55.
\<close>

theorem train_model_success_iff:
  assumes "completes run io w epochs" and "\<forall>i<epochs. run i = Inr (p i)"
  shows "fst (train_model run io w epochs) = Inr (\<exists>i<epochs. 50 < pass_acc (p i))
       \<and> train_model three_epochs all_written no_files 3 =
           (Inr True,
            \<lparr>fs = (\<lambda>p. None)(CHECKPOINT_PATH \<mapsto>
                     Saved \<lparr>ck_model_state_dict = 1, ck_acc = 55, ck_epoch = 1\<rparr>),
             error_log = [], train_calls = 1\<rparr>)"
  using best_gt_50_iff [OF assms] three_epochs_result
  by (simp add: train_model_completed [OF assms(1)])

lemma flat_run_completes:
  "completes (flat_run c) all_written (w :: nat world) n"
proof -
  let ?p = "\<lambda>i::nat. \<lparr>train_batches = 1, pass_acc = c, pass_model = i\<rparr>"
  have "\<forall>i<n. flat_run c i = Inr (?p i)"
    by (simp add: flat_run_def)
  moreover have "0 < train_batches (?p 0)"
    by simp
  moreover have "\<forall>i<n. all_written i = Written \<or> pass_acc (?p i) \<le> 0"
    by (simp add: all_written_def)
  ultimately show ?thesis
    using completes_if [of n "flat_run c" ?p all_written w] by blast
qed

theorem train_model_success_iff_witness:
  "fst (train_model (flat_run 50) all_written no_files 4) = Inr False
   \<and> fst (train_model (flat_run 50.5) all_written no_files 4) = Inr True"
proof -
  have h1: "\<forall>i<4. flat_run 50 i = Inr (\<lparr>train_batches = 1, pass_acc = 50, pass_model = i\<rparr>)"
    by (simp add: flat_run_def)
  have h2: "\<forall>i<4. flat_run 50.5 i = Inr (\<lparr>train_batches = 1, pass_acc = 50.5, pass_model = i\<rparr>)"
    by (simp add: flat_run_def)
  have ex: "\<exists>i::nat. i < 4"
    by (rule exI [of _ 0]) simp
  show ?thesis
    using train_model_success_iff [OF flat_run_completes h1]
      train_model_success_iff [OF flat_run_completes h2] ex
    by simp
qed

lemma improves_iff:
  assumes "completes run io w e" and "\<forall>i<e. run i = Inr (p i)"
  shows "best_acc (state_after run io w e) < pass_acc (p e) \<longleftrightarrow>
         0 < pass_acc (p e) \<and> (\<forall>i<e. pass_acc (p i) < pass_acc (p e))"
proof -
  let ?A = "insert 0 ((\<lambda>i. pass_acc (p i)) ` {..<e})"
  have "Max ?A < pass_acc (p e) \<longleftrightarrow> (\<forall>x\<in>?A. x < pass_acc (p e))"
    by (rule Max_less_iff) auto
  then show ?thesis
    by (auto simp: best_acc_after [OF assms])
qed


lemma all_zero_run:
  assumes "\<forall>i<n. run i = Inr (p i)" and "\<forall>i<n. pass_acc (p i) = 0" and "0 < train_batches (p 0)"
  shows "completes run io w n"
    and "writes (state_after run io w n) = []"
    and "the_world (state_after run io w n) = w\<lparr>train_calls := train_calls w + 1\<rparr>"
    and "\<not> 50 < best_acc (state_after run io w n)"
proof -
  have "\<forall>i<n. io i = Written \<or> pass_acc (p i) \<le> 0"
    using assms(2) by simp
  then show c: "completes run io w n"
    using completes_if [OF assms(1,3), of io w] by blast
  have "e \<notin> set (writes (state_after run io w n))" for e
  proof (cases "e < n")
    case True
    have ce: "completes run io w e"
      using c True completes_prefix [of run io w n e] by simp
    have pre: "\<forall>i<e. run i = Inr (p i)"
      using assms(1) True by simp
    have "\<not> best_acc (state_after run io w e) < pass_acc (p e)"
      using improves_iff [OF ce pre] assms(2) True by simp
    then show ?thesis
      by (simp add: writes_after [OF c assms(1)])
  next
    case False
    then show ?thesis
      by (simp add: writes_after [OF c assms(1)])
  qed
  then show nw: "writes (state_after run io w n) = []"
    by (cases "writes (state_after run io w n)") auto
  show "the_world (state_after run io w n) = w\<lparr>train_calls := train_calls w + 1\<rparr>"
    by (rule world_no_writes [OF c nw])
  have "\<not> (\<exists>i<n. 50 < pass_acc (p i))"
    using assms(2) by simp
  then show "\<not> 50 < best_acc (state_after run io w n)"
    using best_gt_50_iff [OF c assms(1)] by simp
qed



subsection \<open>The learning-rate schedule in the loop\<close>

lemma current_multiplier_values:
  "current_multiplier milestones gamma e =
     (if e < 60 then 1 else if e < 120 then 0.2 else if e < 160 then 0.04 else 0.008)"
  by (simp add: current_multiplier_def milestones_def gamma_def power2_eq_square power3_eq_cube)

text \<open>
  C3. In a run that completes, the multiplier in effect during the training pass of epoch
  \<open>e\<close> is gamma to the power of the number of milestones that are at most \<open>e\<close>: 1 up to
  epoch 59, 0.2 from 60, 0.04 from 120 and 0.008 from 160. One multiplier is recorded per
  epoch, and the schedule has been stepped \<open>e\<close> times when epoch \<open>e\<close> begins and \<open>e + 1\<close>
  times when it ends: once per epoch, at the end of the epoch's body.
\<close>

theorem lr_multiplier_schedule:
  assumes "completes run io w epochs" and "e < epochs"
  shows "lr_trace (state_after run io w epochs) ! e =
           gamma ^ length (filter (\<lambda>k. k \<le> e) milestones)
       \<and> lr_trace (state_after run io w epochs) ! e =
           (if e < 60 then 1 else if e < 120 then 0.2 else if e < 160 then 0.04 else 0.008)
       \<and> length (lr_trace (state_after run io w epochs)) = epochs
       \<and> last_epoch (state_after run io w e) = e
       \<and> last_epoch (state_after run io w (Suc e)) = Suc e"
proof -
  have cS: "completes run io w (Suc e)" and ce: "completes run io w e"
    using assms completes_prefix [of run io w epochs "Suc e"] completes_prefix [of run io w epochs e]
    by simp_all
  have v: "lr_trace (state_after run io w epochs) ! e = current_multiplier milestones gamma e"
    using assms(2) by (simp add: lr_trace_after [OF assms(1)])
  have c1: "lr_trace (state_after run io w epochs) ! e =
            gamma ^ length (filter (\<lambda>k. k \<le> e) milestones)"
    using v by (simp add: current_multiplier_def)
  have c2: "lr_trace (state_after run io w epochs) ! e =
           (if e < 60 then 1 else if e < 120 then 0.2 else if e < 160 then 0.04 else 0.008)"
    using v current_multiplier_values [of e] by simp
  have c3: "length (lr_trace (state_after run io w epochs)) = epochs"
    by (simp add: lr_trace_after [OF assms(1)])
  have c4: "last_epoch (state_after run io w e) = e"
    by (rule last_epoch_after [OF ce])
  have c5: "last_epoch (state_after run io w (Suc e)) = Suc e"
    by (rule last_epoch_after [OF cS])
  from c1 c2 c3 c4 c5 show ?thesis by blast
qed

theorem lr_multiplier_schedule_witness:
  "lr_trace (state_after (flat_run 0) all_written (no_files :: nat world) 200) ! 59 = 1
   \<and> lr_trace (state_after (flat_run 0) all_written (no_files :: nat world) 200) ! 60 = 0.2
   \<and> lr_trace (state_after (flat_run 0) all_written (no_files :: nat world) 200) ! 120 = 0.04
   \<and> lr_trace (state_after (flat_run 0) all_written (no_files :: nat world) 200) ! 199 = 0.008"
proof -
  note c = flat_run_completes [of 0 no_files 200]
  show ?thesis
    using lr_multiplier_schedule [OF c, of 59] lr_multiplier_schedule [OF c, of 60]
      lr_multiplier_schedule [OF c, of 120] lr_multiplier_schedule [OF c, of 199]
    by simp
qed

subsection \<open>The checkpoint gate\<close>

lemma train_model_False_D:
  assumes "fst (train_model run io w n) = Inr False"
  shows "(\<forall>i<n. \<exists>p. run i = Inr p \<and> pass_acc p \<le> 50)
       \<and> train_calls (snd (train_model run io w n)) = train_calls w + 1"
proof -
  have c: "completes run io w n"
    using assms train_model_returns_iff [of run io w n] by auto
  have ex: "\<exists>p. run i = Inr p" if "i < n" for i
    using completes_ran [OF c that] .
  have ran: "\<forall>i<n. run i = Inr (projr (run i))"
  proof (intro allI impI)
    fix i assume "i < n"
    then obtain p where "run i = Inr p"
      using ex by blast
    then show "run i = Inr (projr (run i))"
      by simp
  qed
  have "\<not> 50 < best_acc (state_after run io w n)"
    using assms by (simp add: train_model_completed [OF c])
  then have "\<not> (\<exists>i<n. 50 < pass_acc (projr (run i)))"
    using best_gt_50_iff [OF c ran] by simp
  then have "\<forall>i<n. pass_acc (projr (run i)) \<le> 50"
    by (meson not_less)
  then have p1: "\<forall>i<n. \<exists>p. run i = Inr p \<and> pass_acc p \<le> 50"
    using ran by blast
  have p2: "train_calls (snd (train_model run io w n)) = train_calls w + 1"
    using world_other_fields_after [OF c] by (simp add: train_model_completed [OF c])
  from p1 p2 show ?thesis by blast
qed

text \<open>
  C5. If any file is at the checkpoint path, \<^verbatim>\<open>verify_checkpoint\<close> returns success and
  leaves the world as it was (no call of \<^verbatim>\<open>train_model\<close>, whatever the file holds), and
  so does a second call right after it. It returns false only if no file was there, the
  training was run, every epoch completed with an accuracy of at most 50, and
  \<^verbatim>\<open>train_model\<close> returned false.
\<close>

theorem verify_checkpoint_reuses_existing:
  "(fs w CHECKPOINT_PATH = Some f \<longrightarrow>
       verify_checkpoint tenv w = (Inr True, w)
     \<and> verify_checkpoint tenv' (snd (verify_checkpoint tenv w)) = (Inr True, w))
   \<and> (fst (verify_checkpoint tenv w) = Inr False \<longrightarrow>
       fs w CHECKPOINT_PATH = None
     \<and> build_training tenv = None
     \<and> fst (train_model (epoch_run tenv) (saves tenv) w 200) = Inr False
     \<and> train_calls (snd (verify_checkpoint tenv w)) = train_calls w + 1
     \<and> (\<forall>i<200. \<exists>p. epoch_run tenv i = Inr p \<and> pass_acc p \<le> 50))"
proof -
  have p1: "verify_checkpoint tenv w = (Inr True, w)
     \<and> verify_checkpoint tenv' (snd (verify_checkpoint tenv w)) = (Inr True, w)"
    if "fs w CHECKPOINT_PATH = Some f"
    using that by (simp add: verify_checkpoint_def path_exists_def)
  have p2: "fs w CHECKPOINT_PATH = None
     \<and> build_training tenv = None
     \<and> fst (train_model (epoch_run tenv) (saves tenv) w 200) = Inr False
     \<and> train_calls (snd (verify_checkpoint tenv w)) = train_calls w + 1
     \<and> (\<forall>i<200. \<exists>p. epoch_run tenv i = Inr p \<and> pass_acc p \<le> 50)"
    if f: "fst (verify_checkpoint tenv w) = Inr False"
  proof -
    have a: "fs w CHECKPOINT_PATH = None" and b: "build_training tenv = None"
      and c: "fst (train_model (epoch_run tenv) (saves tenv) w 200) = Inr False"
      using f by (auto simp: verify_checkpoint_def path_exists_def
          split: if_splits option.splits prod.splits sum.splits)
    have d: "train_calls (snd (verify_checkpoint tenv w)) =
             train_calls (snd (train_model (epoch_run tenv) (saves tenv) w 200))"
      using a b c by (auto simp: verify_checkpoint_def path_exists_def
          split: if_splits option.splits prod.splits sum.splits)
    show ?thesis
      using a b c d train_model_False_D [OF c] by simp
  qed
  from p1 p2 show ?thesis by blast
qed

lemma zero_run_fails:
  "train_model (flat_run 0) io (no_files :: nat world) 200 = (Inr False, no_files\<lparr>train_calls := 1\<rparr>)"
proof -
  let ?z = "\<lambda>i::nat. \<lparr>train_batches = 1, pass_acc = (0::real), pass_model = i\<rparr>"
  have h: "\<forall>i<200. flat_run 0 i = Inr (?z i)"
    by (simp add: flat_run_def)
  have z: "\<forall>i<200. pass_acc (?z i) = 0" and b: "0 < train_batches (?z 0)"
    by simp_all
  note Z = all_zero_run [OF h z b, of io no_files]
  have "train_model (flat_run 0) io (no_files :: nat world) 200 =
        (Inr False, no_files\<lparr>train_calls := train_calls (no_files :: nat world) + 1\<rparr>)"
    using Z(3,4) by (simp add: train_model_completed [OF Z(1)])
  then show ?thesis
    by (simp add: no_files_def)
qed

theorem verify_checkpoint_reuses_existing_witness:
  "verify_checkpoint zero_env stale_world = (Inr True, stale_world)
   \<and> verify_checkpoint zero_env (snd (verify_checkpoint zero_env stale_world)) = (Inr True, stale_world)
   \<and> fst (verify_checkpoint zero_env no_files) = Inr False
   \<and> train_calls (snd (verify_checkpoint zero_env no_files)) = 1"
proof -
  have h1: "fs stale_world CHECKPOINT_PATH =
      Some (Saved \<lparr>ck_model_state_dict = 0, ck_acc = 12, ck_epoch = 3\<rparr>)"
    by (simp add: stale_world_def)
  have h2: "fst (verify_checkpoint zero_env no_files) = Inr False"
    by (simp add: verify_checkpoint_def path_exists_def zero_env_def zero_run_fails)
       (simp add: no_files_def)
  have "train_calls (no_files :: nat world) = 0"
    by (simp add: no_files_def)
  then show ?thesis
    using verify_checkpoint_reuses_existing [of stale_world _ zero_env zero_env] h1
      verify_checkpoint_reuses_existing [of no_files _ zero_env] h2
    by simp
qed

subsection \<open>The dataset views\<close>

lemma Subset_py_range:
  "k \<le> int (length ds) \<Longrightarrow> Subset ds (py_range k) = take (nat k) ds"
proof -
  assume "k \<le> int (length ds)"
  then have le: "nat k \<le> length ds"
    by simp
  have "map (\<lambda>i. ds ! i) [0..<nat k] = take (nat k) ds"
    using le by (metis map_nth take_map take_upt add_0)
  then show ?thesis
    by (simp add: Subset_def py_range_def)
qed

lemma dataset_views_take:
  "subset_size \<noteq> 0 \<Longrightarrow>
   dataset_views subset_size train_dataset test_dataset =
     (take (nat (min subset_size (int (length train_dataset)))) train_dataset,
      take (nat (min (subset_size div 5) (int (length test_dataset)))) test_dataset)"
  by (simp add: dataset_views_def Subset_py_range)

text \<open>
  C6. With a sample-size cap \<open>subset_size > 0\<close>, the train view is the first
  \<open>min subset_size (length train)\<close> samples of the train split and the test view the first
  \<open>min (subset_size div 5) (length test)\<close> samples of the test split; neither is longer than
  its split. A cap of 5000 on a train split of 4000 samples gives 4000 samples, and on a test
  split of 100000 samples it gives 1000.
\<close>

theorem dataset_views_truncate:
  assumes "0 < subset_size"
  shows "fst (dataset_views subset_size train_dataset test_dataset) =
           take (nat (min subset_size (int (length train_dataset)))) train_dataset
       \<and> snd (dataset_views subset_size train_dataset test_dataset) =
           take (nat (min (subset_size div 5) (int (length test_dataset)))) test_dataset
       \<and> int (length (fst (dataset_views subset_size train_dataset test_dataset))) =
           min subset_size (int (length train_dataset))
       \<and> int (length (snd (dataset_views subset_size train_dataset test_dataset))) =
           min (subset_size div 5) (int (length test_dataset))
       \<and> length (fst (dataset_views subset_size train_dataset test_dataset)) \<le> length train_dataset
       \<and> length (snd (dataset_views subset_size train_dataset test_dataset)) \<le> length test_dataset
       \<and> (subset_size = 5000 \<and> length train_dataset = 4000 \<longrightarrow>
            length (fst (dataset_views subset_size train_dataset test_dataset)) = 4000)
       \<and> (subset_size = 5000 \<and> length test_dataset = 100000 \<longrightarrow>
            length (snd (dataset_views subset_size train_dataset test_dataset)) = 1000)"
proof -
  have nz: "subset_size \<noteq> 0" and d: "0 \<le> subset_size div 5"
    using assms by simp_all
  note v = dataset_views_take [OF nz, of train_dataset test_dataset]
  have c1: "fst (dataset_views subset_size train_dataset test_dataset) =
           take (nat (min subset_size (int (length train_dataset)))) train_dataset"
    by (simp add: v)
  have c2: "snd (dataset_views subset_size train_dataset test_dataset) =
           take (nat (min (subset_size div 5) (int (length test_dataset)))) test_dataset"
    by (simp add: v)
  have c3: "int (length (fst (dataset_views subset_size train_dataset test_dataset))) =
           min subset_size (int (length train_dataset))"
    using assms by (simp add: c1)
  have c4: "int (length (snd (dataset_views subset_size train_dataset test_dataset))) =
           min (subset_size div 5) (int (length test_dataset))"
    using d by (simp add: c2)
  have c5: "length (fst (dataset_views subset_size train_dataset test_dataset)) \<le> length train_dataset"
    by (simp add: c1)
  have c6: "length (snd (dataset_views subset_size train_dataset test_dataset)) \<le> length test_dataset"
    by (simp add: c2)
  have c7: "subset_size = 5000 \<and> length train_dataset = 4000 \<longrightarrow>
            length (fst (dataset_views subset_size train_dataset test_dataset)) = 4000"
    using c3 by auto
  have c8: "subset_size = 5000 \<and> length test_dataset = 100000 \<longrightarrow>
            length (snd (dataset_views subset_size train_dataset test_dataset)) = 1000"
    using c4 by auto
  from c1 c2 c3 c4 c5 c6 c7 c8 show ?thesis by blast
qed

theorem dataset_views_truncate_witness:
  "length (fst (dataset_views 5000 (replicate 4000 (0::nat)) (replicate 100000 (0::nat)))) = 4000
   \<and> length (snd (dataset_views 5000 (replicate 4000 (0::nat)) (replicate 100000 (0::nat)))) = 1000
   \<and> dataset_views 2 [1, 2, 3 :: nat] [4, 5 :: nat] = ([1, 2], [])"
proof -
  have h: "(0::int) < 5000" and h2: "(0::int) < 2"
    by simp_all
  have a: "length (fst (dataset_views 5000 (replicate 4000 (0::nat)) (replicate 100000 (0::nat)))) = 4000"
    using dataset_views_truncate [OF h, of "replicate 4000 (0::nat)" "replicate 100000 (0::nat)"]
    by simp
  have b: "length (snd (dataset_views 5000 (replicate 4000 (0::nat)) (replicate 100000 (0::nat)))) = 1000"
    using dataset_views_truncate [OF h, of "replicate 4000 (0::nat)" "replicate 100000 (0::nat)"]
    by simp
  have c: "dataset_views 2 [1, 2, 3 :: nat] [4, 5 :: nat] = ([1, 2], [])"
    using dataset_views_truncate [OF h2, of "[1, 2, 3 :: nat]" "[4, 5 :: nat]"]
    by (simp add: prod_eq_iff)
  from a b c show ?thesis by blast
qed

subsection \<open>The orchestrator\<close>

lemma run_after_gate:
  assumes "verify_checkpoint tenv w = (Inr True, w1)"
  shows "run_cifar100_experiment tenv xenv w subset_size =
     (case collect_results xenv subset_size of
        Inr results \<Rightarrow>
          if all_poor results
          then (Inr False, w1\<lparr>error_log := error_log w1 @ [stopping_here]\<rparr>)
          else (Inr True, w1)
      | Inl (Exception msg) \<Rightarrow>
          (Inr False,
           w1\<lparr>error_log := error_log w1 @
               [''Error in CIFAR-100 experiment: '' @ msg, ''Traceback:'', stopping_here]\<rparr>)
      | Inl KeyboardInterrupt \<Rightarrow> (Inl KeyboardInterrupt, w1))"
  by (simp add: run_cifar100_experiment_def assms)

lemma all_poor_iff: "all_poor results \<longleftrightarrow> (\<forall>(name, mt) \<in> set results. accuracy mt < 10)"
  by (auto simp: all_poor_def list_all_iff)

lemma stale_world_gate: "verify_checkpoint zero_env stale_world = (Inr True, stale_world)"
  by (simp add: verify_checkpoint_def path_exists_def stale_world_def)

lemma gate_env_results:
  "collect_results (gate_env a b) subset_size =
     Inr [(''clf_a'', \<lparr>accuracy = a, train_time = 1, inference_time = 1\<rparr>),
          (''clf_b'', \<lparr>accuracy = b, train_time = 1, inference_time = 1\<rparr>)]"
  by (simp add: collect_results_def gate_env_def split: prod.splits)

text \<open>
  C2. Once the checkpoint gate has passed and the stages have produced the result collection,
  \<^verbatim>\<open>run_cifar100_experiment\<close> returns failure exactly when every result's accuracy is
  strictly below 10, and success exactly when some accuracy is not. With the accuracies
  9.9 and 9.9 it returns failure, with 9.9 and 10.0 success.
\<close>

theorem quality_gate_iff:
  assumes "verify_checkpoint tenv w = (Inr True, w1)"
    and "collect_results xenv subset_size = Inr results"
  shows "(fst (run_cifar100_experiment tenv xenv w subset_size) = Inr False \<longleftrightarrow>
            (\<forall>(name, mt) \<in> set results. accuracy mt < 10))
       \<and> (fst (run_cifar100_experiment tenv xenv w subset_size) = Inr True \<longleftrightarrow>
            (\<exists>(name, mt) \<in> set results. \<not> accuracy mt < 10))
       \<and> fst (run_cifar100_experiment zero_env (gate_env 9.9 9.9) stale_world 5000) = Inr False
       \<and> fst (run_cifar100_experiment zero_env (gate_env 9.9 10.0) stale_world 5000) = Inr True"
proof -
  have r: "fst (run_cifar100_experiment tenv xenv w subset_size) = Inr (\<not> all_poor results)"
    by (simp add: run_after_gate [OF assms(1)] assms(2))
  have c1: "fst (run_cifar100_experiment tenv xenv w subset_size) = Inr False \<longleftrightarrow>
            (\<forall>(name, mt) \<in> set results. accuracy mt < 10)"
    by (simp add: r all_poor_iff)
  have c2: "fst (run_cifar100_experiment tenv xenv w subset_size) = Inr True \<longleftrightarrow>
            (\<exists>(name, mt) \<in> set results. \<not> accuracy mt < 10)"
    by (auto simp: r all_poor_iff)
  have c3: "fst (run_cifar100_experiment zero_env (gate_env 9.9 9.9) stale_world 5000) = Inr False"
    by (simp add: run_after_gate [OF stale_world_gate] gate_env_results all_poor_def)
  have c4: "fst (run_cifar100_experiment zero_env (gate_env 9.9 10.0) stale_world 5000) = Inr True"
    by (simp add: run_after_gate [OF stale_world_gate] gate_env_results all_poor_def)
  from c1 c2 c3 c4 show ?thesis by blast
qed

theorem quality_gate_iff_witness:
  "fst (run_cifar100_experiment zero_env (gate_env 9.9 9.9) stale_world 5000) = Inr False
   \<and> fst (run_cifar100_experiment zero_env (gate_env 9.9 10.0) stale_world 5000) = Inr True
   \<and> fst (run_cifar100_experiment zero_env (gate_env 3 0) stale_world 5000) = Inr False"
proof -
  have a: "fst (run_cifar100_experiment zero_env (gate_env 9.9 9.9) stale_world 5000) = Inr False"
    using quality_gate_iff [OF stale_world_gate gate_env_results [of "9.9" "9.9" 5000]] by simp
  have b: "fst (run_cifar100_experiment zero_env (gate_env 9.9 10.0) stale_world 5000) = Inr True"
    using quality_gate_iff [OF stale_world_gate gate_env_results [of "9.9" "10.0" 5000]] by simp
  have c: "fst (run_cifar100_experiment zero_env (gate_env 3 0) stale_world 5000) = Inr False"
    using quality_gate_iff [OF stale_world_gate gate_env_results [of 3 0 5000]] by simp
  from a b c show ?thesis by blast
qed

lemma main_exit:
  "main tenv xenv w =
     (case run_cifar100_experiment tenv xenv w 5000 of
        (Inl x, w1) \<Rightarrow> (Uncaught x, w1)
      | (Inr ok, w1) \<Rightarrow> if ok then (Returned, w1) else (SysExit 1, w1))"
  by (simp add: main_def split: prod.splits sum.splits)

lemma exit_status_zero_iff:
  "exit_status (fst (main tenv xenv w)) = 0 \<longleftrightarrow>
   fst (run_cifar100_experiment tenv xenv w 5000) = Inr True"
proof (cases "run_cifar100_experiment tenv xenv w 5000")
  case (Pair r w1)
  show ?thesis
  proof (cases r)
    case (Inl x)
    then show ?thesis
      using Pair by (cases x) (simp_all add: main_exit)
  next
    case (Inr ok)
    then show ?thesis
      using Pair by (simp add: main_exit)
  qed
qed

text \<open>
  C10. If the gate passes, the stages do not raise and no classifier is configured, the
  result collection is empty, the quality gate holds of it, \<^verbatim>\<open>run_cifar100_experiment\<close>
  logs the error and returns failure, and the process ends through \<^verbatim>\<open>sys.exit(1)\<close>.
\<close>

theorem empty_classifier_set_fails:
  assumes "verify_checkpoint tenv w = (Inr True, w1)"
    and "make_experiment xenv = None"
    and "get_train xenv = Inr train_dataset"
    and "get_test xenv = Inr test_dataset"
    and "\<forall>ds. \<exists>r. extract_features xenv ds = Inr r"
    and "classifiers xenv = []"
  shows "collect_results xenv subset_size = Inr []
       \<and> run_cifar100_experiment tenv xenv w subset_size =
           (Inr False, w1\<lparr>error_log := error_log w1 @ [stopping_here]\<rparr>)
       \<and> main tenv xenv w = (SysExit 1, w1\<lparr>error_log := error_log w1 @ [stopping_here]\<rparr>)
       \<and> exit_status (fst (main tenv xenv w)) = 1"
proof -
  have c: "collect_results xenv n = Inr []" for n
  proof -
    obtain tv sv where v: "dataset_views n train_dataset test_dataset = (tv, sv)"
      by (cases "dataset_views n train_dataset test_dataset")
    obtain ftr ltr where e1: "extract_features xenv tv = Inr (ftr, ltr)"
      using assms(5) by (metis surj_pair)
    obtain fte lte where e2: "extract_features xenv sv = Inr (fte, lte)"
      using assms(5) by (metis surj_pair)
    show ?thesis
      by (simp add: collect_results_def assms(2,3,4,6) v e1 e2)
  qed
  have r: "run_cifar100_experiment tenv xenv w n =
           (Inr False, w1\<lparr>error_log := error_log w1 @ [stopping_here]\<rparr>)" for n
    by (simp add: run_after_gate [OF assms(1)] c all_poor_def)
  have m: "main tenv xenv w = (SysExit 1, w1\<lparr>error_log := error_log w1 @ [stopping_here]\<rparr>)"
    by (simp add: main_exit r)
  show ?thesis
    by (simp add: c r m)
qed

theorem empty_classifier_set_fails_witness:
  "run_cifar100_experiment zero_env no_classifiers_env stale_world 5000 =
     (Inr False, stale_world\<lparr>error_log := [stopping_here]\<rparr>)
   \<and> exit_status (fst (main zero_env no_classifiers_env stale_world)) = 1"
proof -
  have h2: "make_experiment no_classifiers_env = None"
    and h3: "get_train no_classifiers_env = Inr [1, 2, 3]"
    and h4: "get_test no_classifiers_env = Inr [4, 5]"
    and h5: "\<forall>ds. \<exists>r. extract_features no_classifiers_env ds = Inr r"
    and h6: "classifiers no_classifiers_env = []"
    by (simp_all add: no_classifiers_env_def gate_env_def)
  have "error_log stale_world = []"
    by (simp add: stale_world_def no_files_def)
  then show ?thesis
    using empty_classifier_set_fails [OF stale_world_gate h2 h3 h4 h5 h6, of 5000]
    by simp
qed

lemma evaluate_classifiers_fault:
  "\<forall>c\<in>set before. \<exists>r. train_and_evaluate xenv c trf trl tef tel = Inr r \<Longrightarrow>
   train_and_evaluate xenv clf_name trf trl tef tel = Inl x \<Longrightarrow>
   evaluate_classifiers xenv trf trl tef tel (before @ clf_name # rest) results = Inl x"
proof (induction before arbitrary: results)
  case Nil
  then show ?case by simp
next
  case (Cons c cs)
  obtain r where "train_and_evaluate xenv c trf trl tef tel = Inr r"
    using Cons.prems(1) by auto
  then show ?case
    using Cons by (cases r) auto
qed

lemma collect_results_faults:
  assumes "make_experiment xenv = None"
  shows "get_train xenv = Inl x \<Longrightarrow> collect_results xenv n = Inl x"
    and "get_train xenv = Inr tr \<Longrightarrow> get_test xenv = Inl x \<Longrightarrow> collect_results xenv n = Inl x"
    and "get_train xenv = Inr tr \<Longrightarrow> get_test xenv = Inr te \<Longrightarrow>
         extract_features xenv (fst (dataset_views n tr te)) = Inl x \<Longrightarrow>
         collect_results xenv n = Inl x"
    and "get_train xenv = Inr tr \<Longrightarrow> get_test xenv = Inr te \<Longrightarrow>
         extract_features xenv (fst (dataset_views n tr te)) = Inr ftr \<Longrightarrow>
         extract_features xenv (snd (dataset_views n tr te)) = Inl x \<Longrightarrow>
         collect_results xenv n = Inl x"
    and "get_train xenv = Inr tr \<Longrightarrow> get_test xenv = Inr te \<Longrightarrow>
         extract_features xenv (fst (dataset_views n tr te)) = Inr (trf, trl) \<Longrightarrow>
         extract_features xenv (snd (dataset_views n tr te)) = Inr (tef, tel) \<Longrightarrow>
         evaluate_classifiers xenv trf trl tef tel (classifiers xenv) [] = Inl x \<Longrightarrow>
         collect_results xenv n = Inl x"
  using assms by (auto simp: collect_results_def split: prod.splits)

text \<open>
  C7. Let the gate pass. If constructing the experiment, loading either split, extracting the
  features of either view, or \<^verbatim>\<open>train_and_evaluate\<close> of some configured classifier (those
  before it having returned) raises an \<^verbatim>\<open>Exception\<close>, then
  \<^verbatim>\<open>run_cifar100_experiment\<close> logs it and returns failure, and the process ends with
  \<^verbatim>\<open>sys.exit(1)\<close>, status 1. For all inputs, the exit status is 0 exactly when
  \<^verbatim>\<open>run_cifar100_experiment\<close> returned success.
\<close>

theorem stage_errors_become_failure:
  assumes "verify_checkpoint tenv w = (Inr True, w1)"
    and "make_experiment xenv = Some (Exception msg)
       \<or> (make_experiment xenv = None \<and> get_train xenv = Inl (Exception msg))
       \<or> (make_experiment xenv = None \<and> get_train xenv = Inr tr
            \<and> get_test xenv = Inl (Exception msg))
       \<or> (make_experiment xenv = None \<and> get_train xenv = Inr tr \<and> get_test xenv = Inr te
            \<and> extract_features xenv (fst (dataset_views 5000 tr te)) = Inl (Exception msg))
       \<or> (make_experiment xenv = None \<and> get_train xenv = Inr tr \<and> get_test xenv = Inr te
            \<and> extract_features xenv (fst (dataset_views 5000 tr te)) = Inr (trf, trl)
            \<and> extract_features xenv (snd (dataset_views 5000 tr te)) = Inl (Exception msg))
       \<or> (make_experiment xenv = None \<and> get_train xenv = Inr tr \<and> get_test xenv = Inr te
            \<and> extract_features xenv (fst (dataset_views 5000 tr te)) = Inr (trf, trl)
            \<and> extract_features xenv (snd (dataset_views 5000 tr te)) = Inr (tef, tel)
            \<and> classifiers xenv = before @ clf_name # rest
            \<and> (\<forall>c\<in>set before. \<exists>r. train_and_evaluate xenv c trf trl tef tel = Inr r)
            \<and> train_and_evaluate xenv clf_name trf trl tef tel = Inl (Exception msg))"
  shows "run_cifar100_experiment tenv xenv w 5000 =
           (Inr False,
            w1\<lparr>error_log := error_log w1 @
                [''Error in CIFAR-100 experiment: '' @ msg, ''Traceback:'', stopping_here]\<rparr>)
       \<and> fst (main tenv xenv w) = SysExit 1
       \<and> exit_status (fst (main tenv xenv w)) = 1
       \<and> (exit_status (fst (main tenv' xenv' w')) = 0 \<longleftrightarrow>
            fst (run_cifar100_experiment tenv' xenv' w' 5000) = Inr True)"
proof -
  have raised: "collect_results xenv 5000 = Inl (Exception msg)"
    using assms(2)
  proof (elim disjE conjE)
    assume "make_experiment xenv = Some (Exception msg)"
    then show ?thesis
      by (simp add: collect_results_def)
  next
    assume "make_experiment xenv = None" "get_train xenv = Inl (Exception msg)"
    then show ?thesis
      by (rule collect_results_faults(1))
  next
    assume "make_experiment xenv = None" "get_train xenv = Inr tr"
      "get_test xenv = Inl (Exception msg)"
    then show ?thesis
      by (rule collect_results_faults(2))
  next
    assume "make_experiment xenv = None" "get_train xenv = Inr tr" "get_test xenv = Inr te"
      "extract_features xenv (fst (dataset_views 5000 tr te)) = Inl (Exception msg)"
    then show ?thesis
      by (rule collect_results_faults(3))
  next
    assume "make_experiment xenv = None" "get_train xenv = Inr tr" "get_test xenv = Inr te"
      "extract_features xenv (fst (dataset_views 5000 tr te)) = Inr (trf, trl)"
      "extract_features xenv (snd (dataset_views 5000 tr te)) = Inl (Exception msg)"
    then show ?thesis
      by (rule collect_results_faults(4))
  next
    assume m: "make_experiment xenv = None" and g1: "get_train xenv = Inr tr"
      and g2: "get_test xenv = Inr te"
      and e1: "extract_features xenv (fst (dataset_views 5000 tr te)) = Inr (trf, trl)"
      and e2: "extract_features xenv (snd (dataset_views 5000 tr te)) = Inr (tef, tel)"
      and cl: "classifiers xenv = before @ clf_name # rest"
      and ok: "\<forall>c\<in>set before. \<exists>r. train_and_evaluate xenv c trf trl tef tel = Inr r"
      and bad: "train_and_evaluate xenv clf_name trf trl tef tel = Inl (Exception msg)"
    have "evaluate_classifiers xenv trf trl tef tel (classifiers xenv) [] = Inl (Exception msg)"
      unfolding cl by (rule evaluate_classifiers_fault [OF ok bad])
    with m g1 g2 e1 e2 show ?thesis
      by (rule collect_results_faults(5))
  qed
  have r: "run_cifar100_experiment tenv xenv w 5000 =
           (Inr False,
            w1\<lparr>error_log := error_log w1 @
                [''Error in CIFAR-100 experiment: '' @ msg, ''Traceback:'', stopping_here]\<rparr>)"
    by (simp add: run_after_gate [OF assms(1)] raised)
  have m: "fst (main tenv xenv w) = SysExit 1"
    by (simp add: main_exit r)
  show ?thesis
    using r m exit_status_zero_iff [of tenv' xenv' w'] by simp
qed

theorem stage_errors_become_failure_witness:
  "fst (run_cifar100_experiment zero_env faulty_env stale_world 5000) = Inr False
   \<and> error_log (snd (run_cifar100_experiment zero_env faulty_env stale_world 5000)) =
       [''Error in CIFAR-100 experiment: malformed sample'', ''Traceback:'', stopping_here]
   \<and> exit_status (fst (main zero_env faulty_env stale_world)) = 1
   \<and> fst (run_cifar100_experiment zero_env failing_clf_env stale_world 5000) = Inr False
   \<and> exit_status (fst (main zero_env failing_clf_env stale_world)) = 1"
proof -
  have el: "error_log stale_world = []"
    by (simp add: stale_world_def no_files_def)
  have h1: "make_experiment faulty_env = None \<and> get_train faulty_env = Inr [1, 2, 3]
            \<and> get_test faulty_env = Inr [4, 5]
            \<and> extract_features faulty_env (fst (dataset_views 5000 [1, 2, 3] [4, 5])) = Inr ((), ())
            \<and> extract_features faulty_env (snd (dataset_views 5000 [1, 2, 3] [4, 5])) =
                Inl (Exception ''malformed sample'')"
    by (simp add: faulty_env_def gate_env_def dataset_views_take)
  have h2: "make_experiment failing_clf_env = None \<and> get_train failing_clf_env = Inr [1, 2, 3]
            \<and> get_test failing_clf_env = Inr [4, 5]
            \<and> extract_features failing_clf_env (fst (dataset_views 5000 [1, 2, 3] [4, 5])) = Inr ((), ())
            \<and> extract_features failing_clf_env (snd (dataset_views 5000 [1, 2, 3] [4, 5])) = Inr ((), ())
            \<and> classifiers failing_clf_env = [''clf_a''] @ ''clf_b'' # []
            \<and> (\<forall>c\<in>set [''clf_a'']. \<exists>r. train_and_evaluate failing_clf_env c () () () () = Inr r)
            \<and> train_and_evaluate failing_clf_env ''clf_b'' () () () () = Inl (Exception ''fit failed'')"
    by (simp add: failing_clf_env_def gate_env_def)
  note A = stage_errors_become_failure [OF stale_world_gate,
      where xenv = faulty_env and msg = "''malformed sample''" and tr = "[1, 2, 3]"
        and te = "[4, 5]" and trf = "()" and trl = "()"
        and tenv' = zero_env and xenv' = faulty_env and w' = stale_world]
  note B = stage_errors_become_failure [OF stale_world_gate,
      where xenv = failing_clf_env and msg = "''fit failed''" and tr = "[1, 2, 3]"
        and te = "[4, 5]" and trf = "()" and trl = "()" and tef = "()" and tel = "()"
        and before = "[''clf_a'']" and clf_name = "''clf_b''" and rest = "[]"
        and tenv' = zero_env and xenv' = failing_clf_env and w' = stale_world]
  have a: "run_cifar100_experiment zero_env faulty_env stale_world 5000 =
           (Inr False,
            stale_world\<lparr>error_log := error_log stale_world @
                [''Error in CIFAR-100 experiment: '' @ ''malformed sample'', ''Traceback:'',
                 stopping_here]\<rparr>)
       \<and> exit_status (fst (main zero_env faulty_env stale_world)) = 1"
    using A h1 by blast
  have b: "fst (run_cifar100_experiment zero_env failing_clf_env stale_world 5000) = Inr False
       \<and> exit_status (fst (main zero_env failing_clf_env stale_world)) = 1"
    using B h2 by simp
  show ?thesis
    using a b el by simp
qed

subsection \<open>Checkpoint writes and crashes\<close>

text \<open>
  C8 does not hold of the code. The first epoch of the three-epoch run reaches the save (40 is above the initial best
  accuracy 0) with no file at the checkpoint path. If the process dies during that save, a
  partial file is at the configured path itself, and the checkpoint gate of the next run
  accepts it: it returns success and does not train.
\<close>

theorem crash_leaves_partial_file_counterexample:
  "three_epochs 0 = Inr \<lparr>train_batches = 1, pass_acc = 40, pass_model = 0\<rparr>
   \<and> best_acc (init_state (no_files :: nat world)) < 40
   \<and> fs (the_world (init_state (no_files :: nat world))) CHECKPOINT_PATH = None
   \<and> fs (crash_in_save (init_state (no_files :: nat world))) CHECKPOINT_PATH = Some Partial
   \<and> verify_checkpoint zero_env (crash_in_save (init_state no_files)) =
       (Inr True, crash_in_save (init_state no_files))"
  by (simp add: three_epochs_def init_state_def no_files_def crash_in_save_def
      torch_save_interrupted_def open_for_write_def verify_checkpoint_def path_exists_def)

text \<open>
  C8, as the code has it. When an epoch improves on the best accuracy, its write is one save
  to the configured checkpoint path, in place: afterwards the path holds the full record, and
  no other path is changed, neither by the completed save nor by one that is cut short (there
  is no temporary file and no rename). A save that is cut short leaves a partial file at the
  configured path, and \<^verbatim>\<open>verify_checkpoint\<close>, which only tests that the path exists,
  accepts it without training.
\<close>

theorem checkpoint_write_in_place:
  assumes "best_acc s < val_acc"
  shows "the_world (epoch_end epoch val_acc msd s) =
           torch_save \<lparr>ck_model_state_dict = msd, ck_acc = val_acc, ck_epoch = epoch\<rparr>
             CHECKPOINT_PATH (the_world s)
       \<and> fs (the_world (epoch_end epoch val_acc msd s)) CHECKPOINT_PATH =
           Some (Saved \<lparr>ck_model_state_dict = msd, ck_acc = val_acc, ck_epoch = epoch\<rparr>)
       \<and> (\<forall>p. p \<noteq> CHECKPOINT_PATH \<longrightarrow>
              fs (the_world (epoch_end epoch val_acc msd s)) p = fs (the_world s) p
            \<and> fs (crash_in_save s) p = fs (the_world s) p)
       \<and> fs (crash_in_save s) CHECKPOINT_PATH = Some Partial
       \<and> verify_checkpoint tenv (crash_in_save s) = (Inr True, crash_in_save s)"
  using assms
  by (simp add: epoch_end_def Let_def torch_save_def finish_write_def open_for_write_def
      crash_in_save_def torch_save_interrupted_def verify_checkpoint_def path_exists_def)

theorem checkpoint_write_in_place_witness:
  "fs (the_world (epoch_end 0 40 0 (init_state (no_files :: nat world)))) CHECKPOINT_PATH =
     Some (Saved \<lparr>ck_model_state_dict = 0, ck_acc = 40, ck_epoch = 0\<rparr>)
   \<and> fs (crash_in_save (init_state (no_files :: nat world))) CHECKPOINT_PATH = Some Partial
   \<and> fs (crash_in_save (init_state (no_files :: nat world))) ''checkpoints/wideresnet/tmp'' = None"
proof -
  have h: "best_acc (init_state (no_files :: nat world)) < 40"
    by (simp add: init_state_def)
  have p: "''checkpoints/wideresnet/tmp'' \<noteq> CHECKPOINT_PATH"
    by (simp add: CHECKPOINT_PATH_def)
  have n: "fs (the_world (init_state (no_files :: nat world))) ''checkpoints/wideresnet/tmp'' = None"
    by (simp add: init_state_def no_files_def)
  note T = checkpoint_write_in_place [OF h, of 0 0 zero_env]
  have a: "fs (the_world (epoch_end 0 40 0 (init_state (no_files :: nat world)))) CHECKPOINT_PATH =
     Some (Saved \<lparr>ck_model_state_dict = 0, ck_acc = 40, ck_epoch = 0\<rparr>)"
    using T by blast
  have b: "fs (crash_in_save (init_state (no_files :: nat world))) CHECKPOINT_PATH = Some Partial"
    using T by blast
  have "fs (crash_in_save (init_state (no_files :: nat world))) ''checkpoints/wideresnet/tmp'' =
        fs (the_world (init_state (no_files :: nat world))) ''checkpoints/wideresnet/tmp''"
    using T p by blast
  then have c: "fs (crash_in_save (init_state (no_files :: nat world))) ''checkpoints/wideresnet/tmp'' = None"
    using n by simp
  from a b c show ?thesis by blast
qed

end
